theory Spec2Isabelle
  imports Main "HOL-Library.AList" "HOL-Library.Sublist"
begin

section \<open>Python values used by the transport\<close>

text \<open>
  The model follows \<^verbatim>\<open>src/janus_client/transport.py\<close>. A Python \<^verbatim>\<open>dict\<close> keeps its
  insertion order, so a dict is an association list: \<open>d[k] = v\<close> is \<open>AList.update k v d\<close>
  (an existing key keeps its place, a new key goes last), \<open>del d[k]\<close> is
  \<open>AList.delete k d\<close>, \<open>k in d\<close> is \<open>map_of d k \<noteq> None\<close>.
  JSON-compatible values are the type \<open>json\<close>; floating point numbers are left out.
  A string is a list of characters with code points below 256.
\<close>

datatype json =
    JNull
  | JBool bool
  | JInt int
  | JStr string
  | JList "json list"
  | JObj "(string \<times> json) list"

type_synonym message = "(string \<times> json) list"

text \<open>
  Exceptions. \<open>PyException\<close> is the builtin \<^verbatim>\<open>Exception\<close> raised with a text (line 68);
  \<open>HttpError\<close> stands for whatever the aiohttp calls of lines 124-131 raise. The last
  four are the names of the specification's taxonomy; no statement of the source raises
  them.
\<close>

datatype error =
    PyException string
  | AttributeError
  | KeyError
  | TypeError
  | ValueError
  | HttpError
  | ValidationError
  | TimeoutError
  | ProtocolError
  | ConnectivityError

text \<open>
  What a coroutine does: it returns a value, raises, or stays suspended at an
  \<^verbatim>\<open>await\<close> that nothing ever resumes.
\<close>

datatype 'a outcome = Returned 'a | Raised error | Pending

definition dict_contains :: "string \<Rightarrow> message \<Rightarrow> bool" where
  "dict_contains k d = (map_of d k \<noteq> None)"

subsection \<open>Decimal and hexadecimal digits\<close>

definition digit_char :: "nat \<Rightarrow> char" where
  "digit_char d = ''0123456789abcdef'' ! d"

function str_nat :: "nat \<Rightarrow> string" where
  "str_nat n = (if n < 10 then [digit_char n] else str_nat (n div 10) @ [digit_char (n mod 10)])"
  by pat_completeness auto
termination
  by (relation "measure id") auto

definition str_int :: "int \<Rightarrow> string" where
  "str_int i = (if i < 0 then CHR ''-'' # str_nat (nat (- i)) else str_nat (nat i))"

definition hex4 :: "nat \<Rightarrow> string" where
  "hex4 n = [digit_char (n div 4096 mod 16), digit_char (n div 256 mod 16),
             digit_char (n div 16 mod 16), digit_char (n mod 16)]"

subsection \<open>json.dumps with its default arguments\<close>

text \<open>
  Line 122 serialises the message with \<^verbatim>\<open>json.dumps(message)\<close>: separators \<open>", "\<close> and
  \<open>": "\<close>, and \<^verbatim>\<open>ensure_ascii\<close>, under which a string keeps the characters from space to
  tilde except the double quote and the backslash, and every other character is
  escaped.
\<close>

definition escape_char :: "char \<Rightarrow> string" where
  "escape_char c =
     (if c = CHR 0x22 then [CHR 0x5C, CHR 0x22]
      else if c = CHR 0x5C then [CHR 0x5C, CHR 0x5C]
      else if c = CHR 0x0A then [CHR 0x5C, CHR ''n'']
      else if c = CHR 0x0D then [CHR 0x5C, CHR ''r'']
      else if c = CHR 0x09 then [CHR 0x5C, CHR ''t'']
      else if c = CHR 0x08 then [CHR 0x5C, CHR ''b'']
      else if c = CHR 0x0C then [CHR 0x5C, CHR ''f'']
      else if (of_char c :: nat) < 32 \<or> 126 < (of_char c :: nat)
        then [CHR 0x5C, CHR ''u''] @ hex4 (of_char c)
      else [c])"

definition json_string :: "string \<Rightarrow> string" where
  "json_string s = [CHR 0x22] @ concat (map escape_char s) @ [CHR 0x22]"

fun join :: "string \<Rightarrow> string list \<Rightarrow> string" where
  "join sep [] = []"
| "join sep [x] = x"
| "join sep (x # y # ys) = x @ sep @ join sep (y # ys)"

fun json_dumps :: "json \<Rightarrow> string"
  and dumps_items :: "json list \<Rightarrow> string list"
  and dumps_members :: "(string \<times> json) list \<Rightarrow> string list" where
  "json_dumps JNull = ''null''"
| "json_dumps (JBool b) = (if b then ''true'' else ''false'')"
| "json_dumps (JInt i) = str_int i"
| "json_dumps (JStr s) = json_string s"
| "json_dumps (JList xs) = ''['' @ join '', '' (dumps_items xs) @ '']''"
| "json_dumps (JObj kvs) = ''{'' @ join '', '' (dumps_members kvs) @ ''}''"
| "dumps_items [] = []"
| "dumps_items (x # xs) = json_dumps x # dumps_items xs"
| "dumps_members [] = []"
| "dumps_members ((k, v) # kvs) = (json_string k @ '': '' @ json_dumps v) # dumps_members kvs"

section \<open>The state of the module\<close>

text \<open>
  \<^verbatim>\<open>JanusSession\<close> lives in \<^verbatim>\<open>session.py\<close>, which is not among the sources; the
  transport reads only its \<^verbatim>\<open>id\<close> attribute (line 46).
\<close>

record JanusSession =
  session_id :: int

text \<open>
  The log of the module's \<^verbatim>\<open>logger\<close>, one constructor per logging statement. The
  argument is the value the f-string interpolates:
  \<^item> \<open>Warn_override v\<close>: line 71, \<^verbatim>\<open>Should not set transaction (v). Overriding.\<close>
  \<^item> \<open>Info_send message_json\<close>: line 123, the text \<^verbatim>\<open>Send: \<close> followed by \<open>message_json\<close>
  \<^item> \<open>Info_response response\<close>: line 138, \<^verbatim>\<open>Transaction response: response\<close>
\<close>

datatype log_record =
    Warn_override json
  | Info_send string
  | Info_response json

definition send_record_text :: "string \<Rightarrow> string" where
  "send_record_text message_json = ''Send: '' @ message_json"

fun info_send_texts :: "log_record list \<Rightarrow> string list" where
  "info_send_texts [] = []"
| "info_send_texts (Info_send message_json # rs) = send_record_text message_json # info_send_texts rs"
| "info_send_texts (r # rs) = info_send_texts rs"

text \<open>
  Lines 55-57 sit in the class body of \<^verbatim>\<open>JanusTransportHTTP\<close>: \<^verbatim>\<open>transactions\<close> and
  \<^verbatim>\<open>sessions\<close> are each ONE dict object, created when the class statement runs and bound
  to the class. They are part of the state of the module, next to the logger's records,
  the lines printed on standard output, and the wire: \<open>requests\<close> lists the URI of every
  HTTP request the module has issued (each is a GET without a body). A queue
  (\<^verbatim>\<open>asyncio.Queue\<close>) is the list of the items waiting in it.
\<close>

type_synonym queue = "json list"

record world =
  transactions :: "(string \<times> queue) list"
  sessions :: "(int \<times> JanusSession) list"
  log :: "log_record list"
  stdout :: "string list"
  requests :: "string list"

text \<open>
  An instance holds what \<^verbatim>\<open>__init__\<close> (lines 61-64) assigns and nothing else:
  \<^verbatim>\<open>None\<close> for a credential is \<open>None\<close>.
\<close>

record JanusTransportHTTP =
  uri :: string
  api_secret :: "string option"
  token :: "string option"

definition rstrip_slash :: "string \<Rightarrow> string" where
  "rstrip_slash s = rev (dropWhile (\<lambda>c. c = CHR ''/'') (rev s))"

definition JanusTransportHTTP_init :: "string \<Rightarrow> string option \<Rightarrow> string option \<Rightarrow> JanusTransportHTTP" where
  "JanusTransportHTTP_init u secret tok =
     \<lparr>uri = rstrip_slash u, api_secret = secret, token = tok\<rparr>"

text \<open>
  \<^verbatim>\<open>self.transactions\<close>: the instance has no attribute of that name of its own
  (\<^verbatim>\<open>__init__\<close> assigns none), so the attribute reference finds the class attribute,
  the same dict object for every instance.
\<close>

definition self_transactions :: "JanusTransportHTTP \<Rightarrow> world \<Rightarrow> (string \<times> queue) list" where
  "self_transactions self w = transactions w"

section \<open>The environment of one call of send\<close>

text \<open>
  What the call takes from outside the program: the value of \<^verbatim>\<open>uuid.uuid4().hex\<close>
  (line 111), what the HTTP GET of lines 124-131 yields, and the items other tasks put on
  the transaction's queue while the call waits at line 137.
\<close>

record http_response =
  status :: int
  content_type :: "string option"
  body :: "error + string"

record env =
  uuid4_hex :: string
  http_get :: "string \<Rightarrow> error + http_response"
  delivered :: "json list"

section \<open>JanusTransportHTTP\<close>

text \<open>\<^verbatim>\<open>__sanitize_message\<close>, lines 66-73.\<close>

definition sanitize_message :: "message \<Rightarrow> world \<Rightarrow> error + world" where
  \<open>sanitize_message message w =
     (if \<not> dict_contains ''janus'' message then Inl (PyException ''Must set "janus" field'')
      else case map_of message ''transaction'' of
             Some v \<Rightarrow> Inr (w\<lparr>log := log w @ [Warn_override v]\<rparr>)
           | None \<Rightarrow> Inr w)\<close>

text \<open>
  \<^verbatim>\<open>__build_uri\<close>, lines 75-84. \<^verbatim>\<open>if session_id:\<close> is false for \<^verbatim>\<open>None\<close> and for 0, and
  so is \<^verbatim>\<open>if handle_id:\<close>.
\<close>

definition build_uri :: "JanusTransportHTTP \<Rightarrow> int option \<Rightarrow> int option \<Rightarrow> string" where
  "build_uri self sid hid =
     (case sid of
        None \<Rightarrow> uri self
      | Some s \<Rightarrow>
          if s = 0 then uri self
          else (let u = uri self @ ''/'' @ str_int s
                in case hid of
                     None \<Rightarrow> u
                   | Some h \<Rightarrow> if h = 0 then u else u @ ''/'' @ str_int h))"

text \<open>
  Lines 124-132: the GET of the built URI, and the three prints. \<^verbatim>\<open>session.get\<close> is given
  the URI and nothing else (no \<^verbatim>\<open>params\<close>, \<^verbatim>\<open>data\<close> or \<^verbatim>\<open>json\<close>): the serialised message
  is not part of the request, so what goes on the wire is the URI alone.
  \<^verbatim>\<open>response.headers["content-type"]\<close> raises KeyError when the header is absent.
\<close>

definition http_exchange :: "env \<Rightarrow> string \<Rightarrow> world \<Rightarrow> error option \<times> world" where
  "http_exchange e u w =
     (let w0 = w\<lparr>requests := requests w @ [u]\<rparr>
      in case http_get e u of
        Inl err \<Rightarrow> (Some err, w0)
      | Inr response \<Rightarrow>
          (let w1 = w0\<lparr>stdout := stdout w0 @ [''Status: '' @ str_int (status response)]\<rparr>
           in case content_type response of
                None \<Rightarrow> (Some KeyError, w1)
              | Some ct \<Rightarrow>
                  (let w2 = w1\<lparr>stdout := stdout w1 @ [''Content-type: '' @ ct]\<rparr>
                   in case body response of
                        Inl err \<Rightarrow> (Some err, w2)
                      | Inr html \<Rightarrow>
                          (None, w2\<lparr>stdout := stdout w2 @ [''Body: '' @ take 15 html @ '' ...'']\<rparr>))))"

text \<open>
  Line 137 writes \<^verbatim>\<open>message.transaction\<close>, an attribute reference, where line 113 wrote
  \<^verbatim>\<open>message["transaction"]\<close>. The entries of a dict are not attributes of it and the type
  \<^verbatim>\<open>dict\<close> has no attribute of this name: the reference raises AttributeError,
  whatever the dict holds.
\<close>

definition message_transaction_attr :: "message \<Rightarrow> error + string" where
  "message_transaction_attr message = Inl AttributeError"

text \<open>
  Lines 137-142 for a key \<open>k\<close>: \<^verbatim>\<open>self.transactions[k]\<close> (KeyError when absent), the
  \<^verbatim>\<open>await\<close> of \<^verbatim>\<open>get()\<close> on that queue, which takes the first item and stays suspended
  when none ever comes, the log record, \<^verbatim>\<open>del self.transactions[k]\<close>, the return.
\<close>

definition await_response :: "env \<Rightarrow> JanusTransportHTTP \<Rightarrow> string \<Rightarrow> world \<Rightarrow> json outcome \<times> world" where
  "await_response e self k w =
     (case map_of (self_transactions self w) k of
        None \<Rightarrow> (Raised KeyError, w)
      | Some q \<Rightarrow>
          (case q @ delivered e of
             [] \<Rightarrow> (Pending, w)
           | response # rest \<Rightarrow>
               (let w1 = w\<lparr>log := log w @ [Info_response response]\<rparr>
                in (Returned response,
                    w1\<lparr>transactions := AList.delete k (self_transactions self w1)\<rparr>))))"

text \<open>
  \<^verbatim>\<open>send\<close>, lines 97-142. The caller's dict is mutated in place, so the model returns it
  next to the outcome and the state.
\<close>

definition attach_credentials :: "JanusTransportHTTP \<Rightarrow> message \<Rightarrow> message" where
  "attach_credentials self message =
     (let m1 = (case api_secret self of
                  Some s \<Rightarrow> AList.update ''api_secret'' (JStr s) message
                | None \<Rightarrow> message)
      in case token self of
           Some t \<Rightarrow> AList.update ''token'' (JStr t) m1
         | None \<Rightarrow> m1)"

definition send ::
  "env \<Rightarrow> JanusTransportHTTP \<Rightarrow> message \<Rightarrow> int option \<Rightarrow> int option \<Rightarrow> world
     \<Rightarrow> json outcome \<times> message \<times> world" where
  "send e self message sid hid w =
     (case sanitize_message message w of
        Inl err \<Rightarrow> (Raised err, message, w)
      | Inr w0 \<Rightarrow>
          (let transaction_id = uuid4_hex e;
               w1 = w0\<lparr>transactions := AList.update transaction_id [] (self_transactions self w0)\<rparr>;
               m1 = AList.update ''transaction'' (JStr transaction_id) message;
               m2 = attach_credentials self m1;
               message_json = json_dumps (JObj m2);
               w2 = w1\<lparr>log := log w1 @ [Info_send message_json]\<rparr>
           in case http_exchange e (build_uri self sid hid) w2 of
                (Some err, w3) \<Rightarrow> (Raised err, m2, w3)
              | (None, w3) \<Rightarrow>
                  (case message_transaction_attr m2 of
                     Inl err \<Rightarrow> (Raised err, m2, w3)
                   | Inr k \<Rightarrow>
                       (case await_response e self k w3 of
                          (r, w4) \<Rightarrow> (r, m2, w4)))))"

section \<open>JanusTransport\<close>

text \<open>
  The dataclass of lines 17-20. Its generated \<^verbatim>\<open>__init__(self, janus, transaction)\<close> has
  no default for either parameter: a call that leaves one out raises TypeError.
\<close>

record JanusMessage =
  janus :: string
  transaction :: string

definition JanusMessage_init :: "string option \<Rightarrow> string option \<Rightarrow> error + JanusMessage" where
  "JanusMessage_init j t =
     (case j of
        None \<Rightarrow> Inl TypeError
      | Some jv \<Rightarrow>
          (case t of
             None \<Rightarrow> Inl TypeError
           | Some tv \<Rightarrow> Inr \<lparr>janus = jv, transaction = tv\<rparr>))"

text \<open>Subscription \<^verbatim>\<open>v[k]\<close> with a string key, as line 37 uses it twice.\<close>

fun getitem :: "json \<Rightarrow> string \<Rightarrow> error + json" where
  "getitem (JObj d) k = (case map_of d k of None \<Rightarrow> Inl KeyError | Some v \<Rightarrow> Inr v)"
| "getitem v k = Inl TypeError"

text \<open>
  The builtin \<^verbatim>\<open>int(v)\<close>. How Python reads a string as an integer is a parameter
  (\<open>int_str\<close>, \<open>None\<close> where Python raises ValueError).
\<close>

fun py_int :: "(string \<Rightarrow> int option) \<Rightarrow> json \<Rightarrow> error + int" where
  "py_int int_str (JInt n) = Inr n"
| "py_int int_str (JBool b) = Inr (if b then 1 else 0)"
| "py_int int_str (JStr s) = (case int_str s of None \<Rightarrow> Inl ValueError | Some n \<Rightarrow> Inr n)"
| "py_int int_str v = Inl TypeError"

text \<open>Line 37: \<^verbatim>\<open>int(response["data"]["id"])\<close>.\<close>

definition response_session_id :: "(string \<Rightarrow> int option) \<Rightarrow> json \<Rightarrow> error + int" where
  "response_session_id int_str response =
     (case getitem response ''data'' of
        Inl err \<Rightarrow> Inl err
      | Inr d \<Rightarrow>
          (case getitem d ''id'' of
             Inl err \<Rightarrow> Inl err
           | Inr v \<Rightarrow> py_int int_str v))"

text \<open>Lines 37-42: what \<^verbatim>\<open>create_session\<close> does with the reply of the exchange.\<close>

definition register_session ::
  "(string \<Rightarrow> int option) \<Rightarrow> json \<Rightarrow> JanusSession \<Rightarrow> world \<Rightarrow> int outcome \<times> world" where
  "register_session int_str response session w =
     (case response_session_id int_str response of
        Inl err \<Rightarrow> (Raised err, w)
      | Inr sid \<Rightarrow> (Returned sid, w\<lparr>sessions := AList.update sid session (sessions w)\<rparr>))"

text \<open>
  \<^verbatim>\<open>create_session\<close>, lines 31-42. \<^verbatim>\<open>send\<close> is abstract in \<^verbatim>\<open>JanusTransport\<close> (line 25):
  the concrete transport's is the parameter \<open>send_impl\<close>. The argument of the call,
  \<^verbatim>\<open>JanusMessage(janus="create")\<close>, is evaluated before \<open>send_impl\<close> runs.
\<close>

definition create_session ::
  "(string \<Rightarrow> int option) \<Rightarrow> (JanusMessage \<Rightarrow> world \<Rightarrow> json outcome \<times> world)
     \<Rightarrow> JanusSession \<Rightarrow> world \<Rightarrow> int outcome \<times> world" where
  "create_session int_str send_impl session w =
     (case JanusMessage_init (Some ''create'') None of
        Inl err \<Rightarrow> (Raised err, w)
      | Inr m \<Rightarrow>
          (case send_impl m w of
             (Returned response, w1) \<Rightarrow> register_session int_str response session w1
           | (Raised err, w1) \<Rightarrow> (Raised err, w1)
           | (Pending, w1) \<Rightarrow> (Pending, w1)))"

text \<open>
  \<^verbatim>\<open>destroy_session\<close>, lines 45-46: \<^verbatim>\<open>del self.sessions[session.id]\<close>.
  \<^verbatim>\<open>JanusTransport\<close> declares no registry of its own; \<^verbatim>\<open>self.sessions\<close> is the one the
  module has, the dict of line 57.
\<close>

definition destroy_session :: "JanusSession \<Rightarrow> world \<Rightarrow> unit outcome \<times> world" where
  "destroy_session session w =
     (case map_of (sessions w) (session_id session) of
        None \<Rightarrow> (Raised KeyError, w)
      | Some s \<Rightarrow> (Returned (), w\<lparr>sessions := AList.delete (session_id session) (sessions w)\<rparr>))"

section \<open>Derived notions used in the statements\<close>

text \<open>
  The record that \<^verbatim>\<open>__sanitize_message\<close> logs for a message: the warning of line 71 when
  the caller has set the transaction field, nothing otherwise.
\<close>

definition override_warning :: "message \<Rightarrow> log_record list" where
  "override_warning message =
     (case map_of message ''transaction'' of Some v \<Rightarrow> [Warn_override v] | None \<Rightarrow> [])"

text \<open>The caller's dict after lines 113-119.\<close>

definition outgoing :: "env \<Rightarrow> JanusTransportHTTP \<Rightarrow> message \<Rightarrow> message" where
  "outgoing e self message =
     attach_credentials self (AList.update ''transaction'' (JStr (uuid4_hex e)) message)"

text \<open>
  A character that \<^verbatim>\<open>json.dumps\<close> writes as it is, and the test whether the text of some
  \<^verbatim>\<open>Send:\<close> record of a log contains a given string.
\<close>

definition plain_char :: "char \<Rightarrow> bool" where
  "plain_char c =
     (32 \<le> (of_char c :: nat) \<and> (of_char c :: nat) \<le> 126 \<and> c \<noteq> CHR 0x22 \<and> c \<noteq> CHR 0x5C)"

definition logged :: "string \<Rightarrow> log_record list \<Rightarrow> bool" where
  "logged s lg = list_ex (sublist s) (info_send_texts lg)"

section \<open>Example inputs\<close>

text \<open>
  A server that answers every GET with status 200; a call during which nothing is put on
  the queue, and one during which a reply is; the state of the freshly imported module;
  a session; three transports.
\<close>

definition http_ok :: "string \<Rightarrow> error + http_response" where
  "http_ok u = Inr \<lparr>status = 200, content_type = Some ''application/json'', body = Inr ''{}''\<rparr>"

definition example_env :: env where
  "example_env = \<lparr>uuid4_hex = ''5f2c'', http_get = http_ok, delivered = []\<rparr>"

definition replying_env :: env where
  "replying_env = example_env\<lparr>delivered := [JObj [(''janus'', JStr ''success'')]]\<rparr>"

definition empty_world :: world where
  "empty_world = \<lparr>transactions = [], sessions = [], log = [], stdout = [], requests = []\<rparr>"

definition session7 :: JanusSession where
  "session7 = \<lparr>session_id = 7\<rparr>"

definition world7 :: world where
  "world7 = empty_world\<lparr>sessions := [(7, session7)]\<rparr>"

definition plain_transport :: JanusTransportHTTP where
  "plain_transport = JanusTransportHTTP_init ''http://a.example/janus/'' None None"

definition other_transport :: JanusTransportHTTP where
  "other_transport = JanusTransportHTTP_init ''http://b.example/janus'' None None"

definition secret_transport :: JanusTransportHTTP where
  "secret_transport = JanusTransportHTTP_init ''http://a.example/janus'' (Some ''s3cret'') (Some ''tok'')"




section \<open>Facts about the building blocks\<close>

subsection \<open>Validation and the HTTP exchange\<close>

lemma sanitize_message_accepts:
  "dict_contains ''janus'' message \<Longrightarrow>
     sanitize_message message w = Inr (w\<lparr>log := log w @ override_warning message\<rparr>)"
  by (simp add: sanitize_message_def override_warning_def split: option.splits)

lemma sanitize_message_rejects:
  \<open>\<not> dict_contains ''janus'' message \<Longrightarrow>
     sanitize_message message w = Inl (PyException ''Must set "janus" field'')\<close>
  by (simp add: sanitize_message_def)

lemma http_exchange_keeps:
  "transactions (snd (http_exchange e u w)) = transactions w"
  "sessions (snd (http_exchange e u w)) = sessions w"
  "log (snd (http_exchange e u w)) = log w"
  by (simp_all add: http_exchange_def Let_def split: sum.splits option.splits)





subsection \<open>The outgoing message\<close>


lemma map_of_outgoing_api_secret:
  "map_of (outgoing e self message) ''api_secret'' =
     (case api_secret self of Some s \<Rightarrow> Some (JStr s) | None \<Rightarrow> map_of message ''api_secret'')"
  by (simp add: outgoing_def attach_credentials_def Let_def update_conv' split: option.splits)

lemma map_of_outgoing_token:
  "map_of (outgoing e self message) ''token'' =
     (case token self of Some t \<Rightarrow> Some (JStr t) | None \<Rightarrow> map_of message ''token'')"
  by (simp add: outgoing_def attach_credentials_def Let_def update_conv' split: option.splits)

subsection \<open>What send leaves behind for a message it accepts\<close>

lemma send_accepted_message:
  assumes "dict_contains ''janus'' message"
  shows "fst (snd (send e self message sid hid w)) = outgoing e self message"
  using assms
  by (simp add: send_def sanitize_message_accepts outgoing_def Let_def message_transaction_attr_def
      split: prod.splits option.splits)

lemma send_accepted_world:
  assumes "dict_contains ''janus'' message"
  shows "snd (snd (send e self message sid hid w)) =
           snd (http_exchange e (build_uri self sid hid)
             (w\<lparr>log := log w @ override_warning message,
                transactions := AList.update (uuid4_hex e) [] (transactions w),
                log := log w @ override_warning message @
                  [Info_send (json_dumps (JObj (outgoing e self message)))]\<rparr>))"
  using assms
  by (simp add: send_def sanitize_message_accepts outgoing_def Let_def message_transaction_attr_def
      self_transactions_def split: prod.splits option.splits)

lemma send_accepted_transactions:
  assumes "dict_contains ''janus'' message"
  shows "transactions (snd (snd (send e self message sid hid w))) =
           AList.update (uuid4_hex e) [] (transactions w)"
  by (simp add: send_accepted_world [OF assms] http_exchange_keeps)


lemma send_accepted_log:
  assumes "dict_contains ''janus'' message"
  shows "log (snd (snd (send e self message sid hid w))) =
           log w @ override_warning message @ [Info_send (json_dumps (JObj (outgoing e self message)))]"
  by (simp add: send_accepted_world [OF assms] http_exchange_keeps)

subsection \<open>The serialised message contains each of its values\<close>

lemma escape_plain_char: "plain_char c \<Longrightarrow> escape_char c = [c]"
  by (auto simp: plain_char_def escape_char_def)

lemma concat_escape_plain: "list_all plain_char s \<Longrightarrow> concat (map escape_char s) = s"
  by (induction s) (simp_all add: escape_plain_char)

lemma sublist_json_string_plain:
  assumes "list_all plain_char s"
  shows "sublist s (json_string s)"
proof -
  have "json_string s = [CHR 0x22] @ s @ [CHR 0x22]"
    by (simp add: json_string_def concat_escape_plain [OF assms])
  then show ?thesis
    unfolding sublist_def by blast
qed

lemma sublist_join: "x \<in> set xs \<Longrightarrow> sublist x (join sep xs)"
proof (induction sep xs rule: join.induct)
  case (1 sep)
  then show ?case by simp
next
  case (2 sep x')
  then show ?case by simp
next
  case (3 sep x' y ys)
  show ?case
  proof (cases "x = x'")
    case True
    then show ?thesis by simp
  next
    case False
    with 3 have "sublist x (join sep (y # ys))" by simp
    then obtain ps ss where "join sep (y # ys) = ps @ x @ ss"
      by (auto simp: sublist_def)
    then have "join sep (x' # y # ys) = (x' @ sep @ ps) @ x @ ss" by simp
    then show ?thesis unfolding sublist_def by blast
  qed
qed

lemma member_dumps_members:
  "(k, v) \<in> set kvs \<Longrightarrow> json_string k @ '': '' @ json_dumps v \<in> set (dumps_members kvs)"
  by (induction kvs) auto

lemma sublist_member_dumps:
  assumes "map_of m k = Some v"
  shows "sublist (json_dumps v) (send_record_text (json_dumps (JObj m)))"
proof -
  from assms have "(k, v) \<in> set m" by (rule map_of_SomeD)
  then have "sublist (json_string k @ '': '' @ json_dumps v) (join '', '' (dumps_members m))"
    by (intro sublist_join member_dumps_members)
  then obtain ps ss
    where j: "join '', '' (dumps_members m) = ps @ (json_string k @ '': '' @ json_dumps v) @ ss"
    by (auto simp: sublist_def)
  have "send_record_text (json_dumps (JObj m)) =
          (''Send: {'' @ ps @ json_string k @ '': '') @ json_dumps v @ (ss @ ''}'')"
    by (simp add: send_record_text_def j)
  then show ?thesis unfolding sublist_def by blast
qed

lemma info_send_texts_append:
  "info_send_texts (xs @ ys) = info_send_texts xs @ info_send_texts ys"
  by (induction xs rule: info_send_texts.induct) simp_all

lemma sublist_trans: "sublist xs ys \<Longrightarrow> sublist ys zs \<Longrightarrow> sublist xs zs"
  by (rule sublist_order.order.trans)

subsection \<open>The reply of the create exchange\<close>

lemma response_session_id_errors:
  "response_session_id int_str response = Inl err \<Longrightarrow> err \<in> {KeyError, TypeError, ValueError}"
  by (cases response; cases "getitem response ''data''")
    (auto simp: response_session_id_def split: option.splits sum.splits json.splits
      elim!: getitem.elims py_int.elims)

section \<open>The transaction table\<close>

text \<open>
  C1. The claim: the slot of a call is removed once its first reply is consumed, so that
  after \<^verbatim>\<open>send\<close> its transaction id is no longer in the Transaction Table. The code
  at the input \<^verbatim>\<open>send({"janus": "info"})\<close>, with a server that answers the GET and a reply
  put on the queue: the call registers the slot, logs the message, then raises
  AttributeError at line 137; the reply is not consumed and the slot stays in the table.
\<close>

theorem send_leaves_slot_behind:
  \<open>send replying_env plain_transport [(''janus'', JStr ''info'')] None None empty_world =
     (Raised AttributeError,
      [(''janus'', JStr ''info''), (''transaction'', JStr ''5f2c'')],
      \<lparr>transactions = [(''5f2c'', [])], sessions = [],
       log = [Info_send ''{"janus": "info", "transaction": "5f2c"}''],
       stdout = [''Status: 200'', ''Content-type: application/json'', ''Body: {} ...''],
       requests = [''http://a.example/janus'']\<rparr>)\<close>
  by code_simp




text \<open>
  C3, as the code has it: \<^verbatim>\<open>send\<close> has no deadline. The wait of lines 137-142 on a slot
  whose queue is empty, with nothing delivered, stays suspended and leaves the state as it
  is; and whenever \<^verbatim>\<open>send\<close> raises for a message it had accepted, the slot it registered
  is still in the Transaction Table.
\<close>

theorem send_has_no_deadline:
  "(map_of (self_transactions self w) k = Some [] \<and> delivered e = [] \<longrightarrow>
      await_response e self k w = (Pending, w)) \<and>
   (dict_contains ''janus'' message \<and> fst (send e self message sid hid w) = Raised err \<longrightarrow>
      map_of (transactions (snd (snd (send e self message sid hid w)))) (uuid4_hex e) = Some [])"
  by (simp add: await_response_def send_accepted_transactions update_conv')

text \<open>C3, as the code has it, at a pending slot and at a keepalive request that fails.\<close>

theorem send_has_no_deadline_witness:
  "map_of (self_transactions plain_transport (empty_world\<lparr>transactions := [(''5f2c'', [])]\<rparr>)) ''5f2c''
     = Some [] \<and>
   delivered example_env = [] \<and>
   fst (await_response example_env plain_transport ''5f2c''
          (empty_world\<lparr>transactions := [(''5f2c'', [])]\<rparr>)) = Pending \<and>
   dict_contains ''janus'' [(''janus'', JStr ''keepalive'')] \<and>
   fst (send example_env plain_transport [(''janus'', JStr ''keepalive'')] (Some 7) None empty_world)
     = Raised AttributeError \<and>
   map_of (transactions (snd (snd (send example_env plain_transport [(''janus'', JStr ''keepalive'')]
     (Some 7) None empty_world)))) ''5f2c'' = Some []"
proof -
  have a: "map_of (self_transactions plain_transport (empty_world\<lparr>transactions := [(''5f2c'', [])]\<rparr>))
      ''5f2c'' = Some []"
    by (simp add: self_transactions_def)
  have b: "delivered example_env = []"
    by (simp add: example_env_def)
  have c: "dict_contains ''janus'' [(''janus'', JStr ''keepalive'')]"
    by (simp add: dict_contains_def)
  have d: "fst (send example_env plain_transport [(''janus'', JStr ''keepalive'')] (Some 7) None
      empty_world) = Raised AttributeError"
    by code_simp
  have u: "uuid4_hex example_env = ''5f2c''"
    by (simp add: example_env_def)
  show ?thesis
    using a b c d u
      send_has_no_deadline [where self = plain_transport
        and w = "empty_world\<lparr>transactions := [(''5f2c'', [])]\<rparr>" and k = "''5f2c''" and e = example_env]
      send_has_no_deadline [where self = plain_transport and w = empty_world and e = example_env
        and message = "[(''janus'', JStr ''keepalive'')]" and sid = "Some 7" and hid = None
        and err = AttributeError]
    by simp
qed

text \<open>
  C3 as stated fails: a keepalive request for session 7 to which no reply is ever
  delivered does not end with TimeoutError, and its slot is still in the table afterwards.
\<close>

theorem send_timeout_counterexample:
  "delivered example_env = [] \<and>
   fst (send example_env plain_transport [(''janus'', JStr ''keepalive'')] (Some 7) None empty_world)
     \<noteq> Raised TimeoutError \<and>
   map_of (transactions (snd (snd (send example_env plain_transport [(''janus'', JStr ''keepalive'')]
     (Some 7) None empty_world)))) ''5f2c'' = Some []"
  by code_simp

text \<open>
  C4. The claim: what one instance registers leaves the tables seen through another
  instance unchanged. The code, for two transports built by \<^verbatim>\<open>__init__\<close> with different
  URIs: before any call the second sees an empty Transaction Table; after a \<^verbatim>\<open>send\<close>
  through the first, the second sees the slot of that call.
\<close>

theorem transactions_shared_by_instances:
  "self_transactions other_transport empty_world = [] \<and>
   self_transactions other_transport
     (snd (snd (send example_env plain_transport [(''janus'', JStr ''info'')] None None empty_world))) =
     [(''5f2c'', [])]"
  by code_simp

text \<open>
  C5, as the code has it: for every message without the \<^verbatim>\<open>janus\<close> key, \<^verbatim>\<open>send\<close> raises the
  builtin \<^verbatim>\<open>Exception\<close> with the text \<^verbatim>\<open>Must set "janus" field\<close>, and neither the message
  nor the state (Transaction Table, registry, log) has changed.
\<close>

theorem send_without_janus:
  \<open>\<not> dict_contains ''janus'' message \<Longrightarrow>
     send e self message sid hid w = (Raised (PyException ''Must set "janus" field''), message, w)\<close>
  by (simp add: send_def sanitize_message_rejects)

text \<open>C5, as the code has it, at a message that holds only a transaction field.\<close>

theorem send_without_janus_witness:
  \<open>\<not> dict_contains ''janus'' [(''transaction'', JStr ''mine'')] \<and>
   send example_env plain_transport [(''transaction'', JStr ''mine'')] None None empty_world =
     (Raised (PyException ''Must set "janus" field''), [(''transaction'', JStr ''mine'')], empty_world)\<close>
  using send_without_janus [where message = "[(''transaction'', JStr ''mine'')]" and e = example_env
      and self = plain_transport and sid = None and hid = None and w = empty_world]
  by (simp add: dict_contains_def)

text \<open>C5 as stated fails: for the empty message the exception is not ValidationError.\<close>

theorem send_without_janus_counterexample:
  "\<not> dict_contains ''janus'' [] \<and>
   fst (send example_env plain_transport [] None None empty_world) \<noteq> Raised ValidationError"
  by (simp add: dict_contains_def send_def sanitize_message_def)

section \<open>The session registry\<close>

text \<open>
  C6. The claim: \<^verbatim>\<open>create_session\<close> takes the session id from the reply, registers the
  session under it and returns it. The code, for every transport, session and state:
  the call raises TypeError while it builds \<^verbatim>\<open>JanusMessage(janus="create")\<close>, before
  anything is sent, and the registry is unchanged.
\<close>

theorem create_session_raises_TypeError:
  "create_session int_str send_impl session w = (Raised TypeError, w)"
  by (simp add: create_session_def JanusMessage_init_def)

text \<open>
  C7, as the code has it: no statement of \<^verbatim>\<open>create_session\<close> raises ProtocolError. The
  handling of the reply (lines 37-42) fails with KeyError, the registry unchanged, for a
  reply without the \<^verbatim>\<open>data\<close> field and for one whose \<^verbatim>\<open>data\<close> object has no \<^verbatim>\<open>id\<close> field;
  and \<^verbatim>\<open>create_session\<close> fails with ProtocolError only if the transport's \<^verbatim>\<open>send\<close> does.
\<close>

theorem register_session_missing_id:
  "(map_of r ''data'' = None \<longrightarrow>
      register_session int_str (JObj r) session w = (Raised KeyError, w)) \<and>
   (map_of r ''data'' = Some (JObj d) \<and> map_of d ''id'' = None \<longrightarrow>
      register_session int_str (JObj r) session w = (Raised KeyError, w)) \<and>
   ((\<forall>m w'. fst (send_impl m w') \<noteq> Raised ProtocolError) \<longrightarrow>
      fst (create_session int_str send_impl session w) \<noteq> Raised ProtocolError)"
proof -
  have reply: "fst (register_session int_str response session w') \<noteq> Raised ProtocolError"
    for response w'
    using response_session_id_errors [of int_str response]
    by (auto simp: register_session_def split: sum.splits)
  have "fst (create_session int_str send_impl session w) \<noteq> Raised ProtocolError"
    if "\<forall>m w'. fst (send_impl m w') \<noteq> Raised ProtocolError"
  proof (cases "JanusMessage_init (Some ''create'') None")
    case (Inl err)
    then show ?thesis
      by (auto simp: create_session_def JanusMessage_init_def)
  next
    case (Inr m)
    obtain r w1 where s: "send_impl m w = (r, w1)"
      by (cases "send_impl m w")
    with that have "r \<noteq> Raised ProtocolError"
      by (metis fst_conv)
    with Inr s reply show ?thesis
      by (cases r) (simp_all add: create_session_def)
  qed
  then show ?thesis
    by (simp add: register_session_def response_session_id_def)
qed

text \<open>
  C7, as the code has it, at a reply without \<^verbatim>\<open>data\<close>, at a reply whose \<^verbatim>\<open>data\<close> is the
  empty object, and at a transport whose \<^verbatim>\<open>send\<close> returns the first of these replies.
\<close>

theorem register_session_missing_id_witness:
  "map_of [(''janus'', JStr ''success'')] ''data'' = None \<and>
   register_session (\<lambda>s. None) (JObj [(''janus'', JStr ''success'')]) session7 empty_world =
     (Raised KeyError, empty_world) \<and>
   map_of [(''janus'', JStr ''success''), (''data'', JObj [])] ''data'' = Some (JObj []) \<and>
   map_of ([] :: (string \<times> json) list) ''id'' = None \<and>
   register_session (\<lambda>s. None) (JObj [(''janus'', JStr ''success''), (''data'', JObj [])]) session7
     empty_world = (Raised KeyError, empty_world) \<and>
   (\<forall>m w'. fst ((\<lambda>m w. (Returned (JObj [(''janus'', JStr ''success'')]), w)) (m :: JanusMessage) (w' :: world))
      \<noteq> Raised ProtocolError) \<and>
   fst (create_session (\<lambda>s. None) (\<lambda>m w. (Returned (JObj [(''janus'', JStr ''success'')]), w))
          session7 empty_world) \<noteq> Raised ProtocolError"
  using register_session_missing_id [where r = "[(''janus'', JStr ''success'')]"
      and int_str = "\<lambda>s. None" and session = session7 and w = empty_world and d = "[]"
      and send_impl = "\<lambda>m w. (Returned (JObj [(''janus'', JStr ''success'')]), w)"]
    register_session_missing_id [where r = "[(''janus'', JStr ''success''), (''data'', JObj [])]"
      and int_str = "\<lambda>s. None" and session = session7 and w = empty_world and d = "[]"
      and send_impl = "\<lambda>m w. (Returned (JObj [(''janus'', JStr ''success'')]), w)"]
  by simp

text \<open>
  C7 as stated fails: with a transport whose \<^verbatim>\<open>send\<close> returns a reply that has no
  \<^verbatim>\<open>data\<close> field, \<^verbatim>\<open>create_session\<close> does not fail with ProtocolError, and neither does
  the handling of that reply.
\<close>

theorem create_session_missing_id_counterexample:
  "getitem (JObj [(''janus'', JStr ''success'')]) ''data'' = Inl KeyError \<and>
   fst (create_session (\<lambda>s. None) (\<lambda>m w. (Returned (JObj [(''janus'', JStr ''success'')]), w))
          session7 empty_world) \<noteq> Raised ProtocolError \<and>
   fst (register_session (\<lambda>s. None) (JObj [(''janus'', JStr ''success'')]) session7 empty_world)
     = Raised KeyError"
  by (simp add: create_session_def JanusMessage_init_def register_session_def response_session_id_def)

section \<open>Credentials\<close>

text \<open>
  C8. For every message that \<^verbatim>\<open>send\<close> accepts: a configured \<^verbatim>\<open>api_secret\<close> is the value of
  the message's top-level field \<^verbatim>\<open>api_secret\<close>, as the string it is, and likewise
  \<^verbatim>\<open>token\<close>; a credential that is not configured leaves its field as the caller had it
  (absent when it was absent); and it is this message that line 122 serialises, before
  the HTTP request is made.
\<close>

theorem send_attaches_credentials:
  "dict_contains ''janus'' message \<Longrightarrow>
     map_of (fst (snd (send e self message sid hid w))) ''api_secret'' =
       (case api_secret self of Some s \<Rightarrow> Some (JStr s) | None \<Rightarrow> map_of message ''api_secret'') \<and>
     map_of (fst (snd (send e self message sid hid w))) ''token'' =
       (case token self of Some t \<Rightarrow> Some (JStr t) | None \<Rightarrow> map_of message ''token'') \<and>
     last (log (snd (snd (send e self message sid hid w)))) =
       Info_send (json_dumps (JObj (fst (snd (send e self message sid hid w)))))"
  by (simp add: send_accepted_message send_accepted_log map_of_outgoing_api_secret map_of_outgoing_token)

text \<open>C8 at a transport with both credentials and at one with neither.\<close>

theorem send_attaches_credentials_witness:
  \<open>dict_contains ''janus'' [(''janus'', JStr ''info'')] \<and>
   fst (snd (send example_env secret_transport [(''janus'', JStr ''info'')] None None empty_world)) =
     [(''janus'', JStr ''info''), (''transaction'', JStr ''5f2c''), (''api_secret'', JStr ''s3cret''),
      (''token'', JStr ''tok'')] \<and>
   map_of (fst (snd (send example_env plain_transport [(''janus'', JStr ''info'')] None None empty_world)))
     ''api_secret'' = None \<and>
   map_of (fst (snd (send example_env plain_transport [(''janus'', JStr ''info'')] None None empty_world)))
     ''token'' = None\<close>
proof -
  have h: "dict_contains ''janus'' [(''janus'', JStr ''info'')]"
    by (simp add: dict_contains_def)
  have m: "fst (snd (send example_env secret_transport [(''janus'', JStr ''info'')] None None empty_world)) =
     [(''janus'', JStr ''info''), (''transaction'', JStr ''5f2c''), (''api_secret'', JStr ''s3cret''),
      (''token'', JStr ''tok'')]"
    by code_simp
  show ?thesis
    using h m send_attaches_credentials [OF h, where e = example_env and self = plain_transport
        and sid = None and hid = None and w = empty_world]
    by (simp add: plain_transport_def JanusTransportHTTP_init_def)
qed

text \<open>
  C9, as the code has it: every call of \<^verbatim>\<open>send\<close> that accepts its message adds to the log
  the override warning, if any, and then the \<^verbatim>\<open>Send:\<close> record with the serialised message;
  a configured credential stands in the text of that record as a JSON string, and as it
  is when it consists of characters that JSON does not escape.
\<close>

theorem send_logs_credentials:
  "dict_contains ''janus'' message \<Longrightarrow>
     log (snd (snd (send e self message sid hid w))) =
       log w @ override_warning message @
       [Info_send (json_dumps (JObj (fst (snd (send e self message sid hid w)))))] \<and>
     (api_secret self = Some s \<longrightarrow>
        logged (json_string s) (log (snd (snd (send e self message sid hid w)))) \<and>
        (list_all plain_char s \<longrightarrow> logged s (log (snd (snd (send e self message sid hid w)))))) \<and>
     (token self = Some t \<longrightarrow>
        logged (json_string t) (log (snd (snd (send e self message sid hid w)))) \<and>
        (list_all plain_char t \<longrightarrow> logged t (log (snd (snd (send e self message sid hid w))))))"
proof -
  assume h: "dict_contains ''janus'' message"
  let ?m = "fst (snd (send e self message sid hid w))"
  let ?lg = "log (snd (snd (send e self message sid hid w)))"
  have m: "?m = outgoing e self message"
    by (rule send_accepted_message [OF h])
  have lg: "?lg = log w @ override_warning message @ [Info_send (json_dumps (JObj ?m))]"
    by (simp add: send_accepted_log [OF h] m)
  have texts: "send_record_text (json_dumps (JObj ?m)) \<in> set (info_send_texts ?lg)"
    by (simp add: lg info_send_texts_append)
  have field: "logged (json_string c) ?lg \<and> (list_all plain_char c \<longrightarrow> logged c ?lg)"
    if "map_of ?m key = Some (JStr c)" for key c
  proof -
    have a: "sublist (json_string c) (send_record_text (json_dumps (JObj ?m)))"
      using sublist_member_dumps [OF that] by simp
    have b: "sublist c (send_record_text (json_dumps (JObj ?m)))" if "list_all plain_char c"
      using sublist_trans [OF sublist_json_string_plain [OF that] a] .
    show ?thesis
      using a b texts by (auto simp: logged_def list_ex_iff)
  qed
  have s: "api_secret self = Some s \<Longrightarrow> map_of ?m ''api_secret'' = Some (JStr s)"
    by (simp add: m map_of_outgoing_api_secret)
  have t: "token self = Some t \<Longrightarrow> map_of ?m ''token'' = Some (JStr t)"
    by (simp add: m map_of_outgoing_token)
  show ?thesis
    using lg field [OF s] field [OF t] by blast
qed

text \<open>C9, as the code has it, at a transport with a secret and a token.\<close>

theorem send_logs_credentials_witness:
  \<open>dict_contains ''janus'' [(''janus'', JStr ''info'')] \<and>
   api_secret secret_transport = Some ''s3cret'' \<and> token secret_transport = Some ''tok'' \<and>
   list_all plain_char ''s3cret'' \<and> list_all plain_char ''tok'' \<and>
   log (snd (snd (send example_env secret_transport [(''janus'', JStr ''info'')] None None empty_world))) =
     [Info_send ''{"janus": "info", "transaction": "5f2c", "api_secret": "s3cret", "token": "tok"}''] \<and>
   logged ''s3cret''
     (log (snd (snd (send example_env secret_transport [(''janus'', JStr ''info'')] None None empty_world)))) \<and>
   logged ''tok''
     (log (snd (snd (send example_env secret_transport [(''janus'', JStr ''info'')] None None empty_world))))\<close>
proof -
  let ?lg = "log (snd (snd (send example_env secret_transport [(''janus'', JStr ''info'')] None None
    empty_world)))"
  have h: "dict_contains ''janus'' [(''janus'', JStr ''info'')]"
    by (simp add: dict_contains_def)
  have a: "api_secret secret_transport = Some ''s3cret''" "token secret_transport = Some ''tok''"
    by (simp_all add: secret_transport_def JanusTransportHTTP_init_def)
  have p: "list_all plain_char ''s3cret''" "list_all plain_char ''tok''"
    by (simp_all add: plain_char_def)
  have l: \<open>?lg =
     [Info_send ''{"janus": "info", "transaction": "5f2c", "api_secret": "s3cret", "token": "tok"}'']\<close>
    by code_simp
  have g: "logged ''s3cret'' ?lg" "logged ''tok'' ?lg"
    using a p
      send_logs_credentials [OF h, where e = example_env and self = secret_transport and sid = None
        and hid = None and w = empty_world and s = "''s3cret''" and t = "''tok''"]
    by blast+
  show ?thesis
    using h a p l g by blast
qed

text \<open>
  C9 as stated fails: with the secret \<^verbatim>\<open>s3cret\<close> configured, the log written by one call
  of \<^verbatim>\<open>send\<close> contains the secret.
\<close>

theorem send_logs_credentials_counterexample:
  "api_secret secret_transport = Some ''s3cret'' \<and>
   logged ''s3cret''
     (log (snd (snd (send example_env secret_transport [(''janus'', JStr ''info'')] None None empty_world))))"
  by code_simp

text \<open>
  C10. \<^verbatim>\<open>destroy_session\<close> is not idempotent: for a session whose id is not a key of the
  registry it raises KeyError and changes nothing; for a registered id it removes that
  entry and no other, after which a second call for the same session raises KeyError.
\<close>

theorem destroy_session_registry:
  "(map_of (sessions w) (session_id s) = None \<longrightarrow> destroy_session s w = (Raised KeyError, w)) \<and>
   (map_of (sessions w) (session_id s) \<noteq> None \<longrightarrow>
      destroy_session s w = (Returned (), w\<lparr>sessions := AList.delete (session_id s) (sessions w)\<rparr>) \<and>
      map_of (sessions (snd (destroy_session s w))) = (map_of (sessions w))(session_id s := None) \<and>
      destroy_session s (snd (destroy_session s w)) = (Raised KeyError, snd (destroy_session s w)))"
  by (auto simp: destroy_session_def delete_conv' split: option.splits)

text \<open>C10 at a registry that holds session 7 and at the empty registry.\<close>

theorem destroy_session_registry_witness:
  "map_of (sessions world7) (session_id session7) \<noteq> None \<and>
   fst (destroy_session session7 world7) = Returned () \<and>
   sessions (snd (destroy_session session7 world7)) = [] \<and>
   map_of (sessions empty_world) (session_id session7) = None \<and>
   fst (destroy_session session7 empty_world) = Raised KeyError \<and>
   fst (destroy_session session7 (snd (destroy_session session7 world7))) = Raised KeyError"
  using destroy_session_registry [of world7 session7] destroy_session_registry [of empty_world session7]
  by (simp add: world7_def session7_def empty_world_def)

end
